theory Spec2Isabelle
  imports Complex_Main "HOL-Library.AList"
begin

section \<open>Strings of the JavaScript runtime\<close>

text \<open>
  The proxy is one file, \<^verbatim>\<open>src/server.js\<close>. A JavaScript string is a sequence of
  UTF-16 code units; the model keeps the code units below 256, so a string is a
  \<^typ>\<open>string\<close> and a character is a \<^typ>\<open>char\<close>. Text fragments are taken after
  \<^verbatim>\<open>chunk.toString()\<close>: a chunk is the text it decodes to.
\<close>

text \<open>\<^verbatim>\<open>s.split('\n')\<close> for a one-character separator: never the empty array.\<close>

fun split_on :: "char \<Rightarrow> string \<Rightarrow> string list" where
  "split_on sep [] = [[]]"
| "split_on sep (c # cs) =
     (let rest = split_on sep cs
      in if c = sep then [] # rest else (c # hd rest) # tl rest)"

definition newline :: char where
  "newline = CHR 0x0A"

text \<open>
  Lines 98 to 100 of the data handler:
  \<^verbatim>\<open>buffer += chunk.toString(); const lines = buffer.split('\n'); buffer = lines.pop() || '';\<close>
  The result is the lines handed to \<^verbatim>\<open>forEach\<close> and the new buffer. \<^verbatim>\<open>pop\<close> on
  an empty array returns \<^verbatim>\<open>undefined\<close>, which \<^verbatim>\<open>|| ''\<close> turns into the empty
  string, as it does the empty last segment.
\<close>

definition reassemble :: "string \<Rightarrow> string \<Rightarrow> string list \<times> string" where
  "reassemble buffer chunk =
     (let lines = split_on newline (buffer @ chunk)
      in if lines = [] then ([], []) else (butlast lines, last lines))"

text \<open>The frames that a sequence of chunks hands to \<^verbatim>\<open>forEach\<close>, and the buffer left.\<close>

fun reassemble_all :: "string \<Rightarrow> string list \<Rightarrow> string list \<times> string" where
  "reassemble_all buffer [] = ([], buffer)"
| "reassemble_all buffer (chunk # chunks) =
     (let (lines, buffer') = reassemble buffer chunk;
          (more, buffer'') = reassemble_all buffer' chunks
      in (lines @ more, buffer''))"

section \<open>Values of the JavaScript runtime\<close>

text \<open>
  What \<^verbatim>\<open>JSON.parse\<close> returns and what a property read can give. An object is
  its own properties in order, as \<^verbatim>\<open>JSON.stringify\<close> prints them. A number is
  the rational that its shortest decimal literal denotes (\<^verbatim>\<open>0.6\<close> is
  \<open>6 / 10\<close>); the two zeros are one value, and parsed JSON holds no NaN.
\<close>

datatype jsval =
    JUndefined
  | JNull
  | JBool bool
  | JNum rat
  | JStr string
  | JArr "jsval list"
  | JObj "(string \<times> jsval) list"

text \<open>ToBoolean, the test of \<^verbatim>\<open>if (v)\<close>, \<^verbatim>\<open>!v\<close>, \<^verbatim>\<open>a && b\<close> and \<^verbatim>\<open>a || b\<close>.\<close>

fun truthy :: "jsval \<Rightarrow> bool" where
  "truthy JUndefined = False"
| "truthy JNull = False"
| "truthy (JBool b) = b"
| "truthy (JNum q) = (q \<noteq> 0)"
| "truthy (JStr s) = (s \<noteq> [])"
| "truthy (JArr xs) = True"
| "truthy (JObj kvs) = True"

text \<open>\<^verbatim>\<open>a || b\<close>\<close>

definition js_or :: "jsval \<Rightarrow> jsval \<Rightarrow> jsval" where
  "js_or a b = (if truthy a then a else b)"

datatype js_error = TypeError | SyntaxError

text \<open>
  The parts of the runtime that the file calls and does not define. \<open>JSON_parse\<close>
  gives \<open>None\<close> where \<^verbatim>\<open>JSON.parse\<close> throws. \<open>plus_coerced\<close> is the operator
  \<^verbatim>\<open>+\<close> on operands that are not both strings (it converts them, adds numbers,
  and throws where a conversion does: \<open>None\<close>); \<open>key_coerced\<close> is the property
  key of a number, an array or an object (\<open>None\<close> where the conversion throws);
  \<open>error_message\<close> is the \<^verbatim>\<open>message\<close> of the error thrown.
\<close>

record runtime =
  JSON_parse :: "string \<Rightarrow> jsval option"
  JSON_stringify :: "jsval \<Rightarrow> string"
  plus_coerced :: "jsval \<Rightarrow> jsval \<Rightarrow> jsval option"
  key_coerced :: "jsval \<Rightarrow> string option"
  error_message :: "js_error \<Rightarrow> string"

text \<open>\<^verbatim>\<open>a + b\<close>: concatenation on two strings.\<close>

definition js_plus :: "runtime \<Rightarrow> jsval \<Rightarrow> jsval \<Rightarrow> jsval option" where
  "js_plus rt a b =
     (case (a, b) of
        (JStr x, JStr y) \<Rightarrow> Some (JStr (x @ y))
      | _ \<Rightarrow> plus_coerced rt a b)"

text \<open>The property key that \<^verbatim>\<open>obj[v]\<close> reads.\<close>

definition to_property_key :: "runtime \<Rightarrow> jsval \<Rightarrow> string option" where
  "to_property_key rt v =
     (case v of
        JStr s \<Rightarrow> Some s
      | JUndefined \<Rightarrow> Some ''undefined''
      | JNull \<Rightarrow> Some ''null''
      | JBool b \<Rightarrow> Some (if b then ''true'' else ''false'')
      | _ \<Rightarrow> key_coerced rt v)"

text \<open>
  \<^verbatim>\<open>v.name\<close> on a value that is neither \<^verbatim>\<open>undefined\<close> nor \<^verbatim>\<open>null\<close>, for a
  name that no built-in prototype defines and that is neither an index nor
  \<^verbatim>\<open>length\<close>: the handlers read \<^verbatim>\<open>choices\<close>, \<^verbatim>\<open>delta\<close>, \<^verbatim>\<open>content\<close>,
  \<^verbatim>\<open>reasoning_content\<close> and the five fields of the request body. Only an object
  has such a property.
\<close>

fun get_named :: "string \<Rightarrow> jsval \<Rightarrow> jsval" where
  "get_named k (JObj kvs) = (case map_of kvs k of Some v \<Rightarrow> v | None \<Rightarrow> JUndefined)"
| "get_named k v = JUndefined"

text \<open>
  \<^verbatim>\<open>v[0]\<close>: the first element of an array, the property \<^verbatim>\<open>"0"\<close> of an object,
  the first character of a string.
\<close>

fun get_index0 :: "jsval \<Rightarrow> jsval" where
  "get_index0 (JArr []) = JUndefined"
| "get_index0 (JArr (x # xs)) = x"
| "get_index0 (JObj kvs) = get_named ''0'' (JObj kvs)"
| "get_index0 (JStr []) = JUndefined"
| "get_index0 (JStr (c # cs)) = JStr [c]"
| "get_index0 v = JUndefined"

text \<open>\<^verbatim>\<open>v?.p\<close>: \<^verbatim>\<open>undefined\<close> when \<^verbatim>\<open>v\<close> is \<^verbatim>\<open>undefined\<close> or \<^verbatim>\<open>null\<close>.\<close>

definition optional_chain :: "(jsval \<Rightarrow> jsval) \<Rightarrow> jsval \<Rightarrow> jsval" where
  "optional_chain get v = (if v = JUndefined \<or> v = JNull then JUndefined else get v)"

text \<open>\<^verbatim>\<open>data?.choices?.[0]?.delta\<close>\<close>

definition delta_of :: "jsval \<Rightarrow> jsval" where
  "delta_of data =
     optional_chain (get_named ''delta'')
       (optional_chain get_index0
         (optional_chain (get_named ''choices'') data))"

text \<open>
  \<^verbatim>\<open>v.name = x\<close> and \<^verbatim>\<open>delete v.name\<close>, in sloppy mode (the file has no
  \<^verbatim>\<open>'use strict'\<close>): an object gets the property in place, or at the end when it
  is new; a number, a boolean or a string is left as it is, without an error; an
  array gets a property that \<^verbatim>\<open>JSON.stringify\<close> does not print.
\<close>

fun set_named :: "string \<Rightarrow> jsval \<Rightarrow> jsval \<Rightarrow> jsval" where
  "set_named k x (JObj kvs) = JObj (AList.update k x kvs)"
| "set_named k x v = v"

fun delete_named :: "string \<Rightarrow> jsval \<Rightarrow> jsval" where
  "delete_named k (JObj kvs) = JObj (AList.delete k kvs)"
| "delete_named k v = v"

text \<open>
  The parsed event is a tree, so a write through \<^verbatim>\<open>data.choices[0].delta\<close>
  rebuilds the path: the object reached is replaced by \<open>f\<close> of it.
\<close>

fun at_named :: "string \<Rightarrow> (jsval \<Rightarrow> jsval) \<Rightarrow> jsval \<Rightarrow> jsval" where
  "at_named k f (JObj kvs) =
     (case map_of kvs k of Some v \<Rightarrow> JObj (AList.update k (f v) kvs) | None \<Rightarrow> JObj kvs)"
| "at_named k f v = v"

fun at_index0 :: "(jsval \<Rightarrow> jsval) \<Rightarrow> jsval \<Rightarrow> jsval" where
  "at_index0 f (JArr (x # xs)) = JArr (f x # xs)"
| "at_index0 f (JObj kvs) = at_named ''0'' f (JObj kvs)"
| "at_index0 f v = v"

definition at_delta :: "(jsval \<Rightarrow> jsval) \<Rightarrow> jsval \<Rightarrow> jsval" where
  "at_delta f data = at_named ''choices'' (at_index0 (at_named ''delta'' f)) data"

section \<open>String methods\<close>

text \<open>
  \<^verbatim>\<open>trim\<close> removes white space and line terminators at both ends: tab, line feed,
  vertical tab, form feed, carriage return, space and no-break space are the ones
  below 256.
\<close>

definition is_space :: "char \<Rightarrow> bool" where
  "is_space c \<longleftrightarrow> c \<in> set [CHR 0x09, CHR 0x0A, CHR 0x0B, CHR 0x0C, CHR 0x0D, CHR 0x20, CHR 0xA0]"

definition trim :: "string \<Rightarrow> string" where
  "trim s = rev (dropWhile is_space (rev (dropWhile is_space s)))"

text \<open>\<^verbatim>\<open>s.startsWith(p)\<close>\<close>

definition starts_with :: "string \<Rightarrow> string \<Rightarrow> bool" where
  "starts_with p s \<longleftrightarrow> take (length p) s = p"

text \<open>
  \<^verbatim>\<open>s.replace(pat, rep)\<close> with a string pattern: the first occurrence only. The
  replacement the file uses is \<^verbatim>\<open>''\<close>, which has no \<^verbatim>\<open>$\<close> pattern.
\<close>

fun replace_first :: "string \<Rightarrow> string \<Rightarrow> string \<Rightarrow> string" where
  "replace_first pat rep [] = (if pat = [] then rep else [])"
| "replace_first pat rep (c # cs) =
     (if starts_with pat (c # cs) then rep @ drop (length pat) (c # cs)
      else c # replace_first pat rep cs)"

text \<open>\<^verbatim>\<open>s.includes(p)\<close>\<close>

fun includes_str :: "string \<Rightarrow> string \<Rightarrow> bool" where
  "includes_str p [] = (p = [])"
| "includes_str p (c # cs) = (starts_with p (c # cs) \<or> includes_str p cs)"

text \<open>
  \<^verbatim>\<open>s.toLowerCase()\<close> on code units below 256: the letters A to Z, and the
  capital letters from 0xC0 to 0xDE except the multiplication sign 0xD7, move up
  by 32.
\<close>

definition lower_char :: "char \<Rightarrow> char" where
  "lower_char c =
     (let n = (of_char c :: nat)
      in if (65 \<le> n \<and> n \<le> 90) \<or> (192 \<le> n \<and> n \<le> 222 \<and> n \<noteq> 215)
         then char_of (n + 32) else c)"

definition toLowerCase :: "string \<Rightarrow> string" where
  "toLowerCase s = map lower_char s"

section \<open>The streaming handler\<close>

text \<open>
  \<^verbatim>\<open>const SHOW_REASONING = false\<close> at line 18. The branch it guards is part of
  the file, so the handlers below take the flag as their argument \<open>show_reasoning\<close>.
\<close>

definition SHOW_REASONING :: bool where
  "SHOW_REASONING = False"

text \<open>
  Lines 121 to 134, the merge of the two channels under \<^verbatim>\<open>SHOW_REASONING\<close>. The
  result is \<^verbatim>\<open>combinedContent\<close> and the new \<^verbatim>\<open>reasoningStarted\<close>. A \<^verbatim>\<open>+\<close> that
  throws leaves the \<^verbatim>\<open>try\<close> block: the result is \<open>None\<close> with the flag as the
  statements before it left it.
\<close>

definition merge_reasoning :: "runtime \<Rightarrow> jsval \<Rightarrow> bool \<Rightarrow> jsval option \<times> bool" where
  "merge_reasoning rt reasoning reasoningStarted =
     (if truthy reasoning \<and> \<not> reasoningStarted then
        (case js_plus rt (JStr ''<think>\<newline>'') reasoning of
           None \<Rightarrow> (None, reasoningStarted)
         | Some combinedContent \<Rightarrow> (Some combinedContent, True))
      else if truthy reasoning then (Some reasoning, reasoningStarted)
      else (Some (JStr []), reasoningStarted))"

definition merge_content :: "runtime \<Rightarrow> jsval \<Rightarrow> jsval \<Rightarrow> bool \<Rightarrow> jsval option \<times> bool" where
  "merge_content rt combinedContent content reasoningStarted =
     (if truthy content \<and> reasoningStarted then
        (case js_plus rt (JStr ''</think>\<newline>\<newline>'') content of
           None \<Rightarrow> (None, reasoningStarted)
         | Some closing \<Rightarrow>
             (case js_plus rt combinedContent closing of
                None \<Rightarrow> (None, reasoningStarted)
              | Some combined \<Rightarrow> (Some combined, False)))
      else if truthy content then
        (case js_plus rt combinedContent content of
           None \<Rightarrow> (None, reasoningStarted)
         | Some combined \<Rightarrow> (Some combined, reasoningStarted))
      else (Some combinedContent, reasoningStarted))"

definition merge_show :: "runtime \<Rightarrow> jsval \<Rightarrow> jsval \<Rightarrow> bool \<Rightarrow> jsval option \<times> bool" where
  "merge_show rt reasoning content reasoningStarted =
     (case merge_reasoning rt reasoning reasoningStarted of
        (None, started) \<Rightarrow> (None, started)
      | (Some combinedContent, started) \<Rightarrow> merge_content rt combinedContent content started)"

text \<open>
  Lines 115 to 146, the body of the \<^verbatim>\<open>try\<close> after \<^verbatim>\<open>JSON.parse\<close>: the event to
  write, if one is written, and the new \<^verbatim>\<open>reasoningStarted\<close>.
\<close>

definition handle_data :: "runtime \<Rightarrow> bool \<Rightarrow> bool \<Rightarrow> jsval \<Rightarrow> jsval option \<times> bool" where
  "handle_data rt show_reasoning reasoningStarted data =
     (let delta = delta_of data in
      if truthy delta then
        (let reasoning = get_named ''reasoning_content'' delta;
             content = get_named ''content'' delta
         in if show_reasoning then
              (case merge_show rt reasoning content reasoningStarted of
                 (None, started) \<Rightarrow> (None, started)
               | (Some combinedContent, started) \<Rightarrow>
                   (if truthy combinedContent then
                      (Some (at_delta (delete_named ''reasoning_content'')
                               (at_delta (set_named ''content'' combinedContent) data)),
                       started)
                    else (Some data, started)))
            else
              (Some (at_delta (delete_named ''reasoning_content'')
                       (at_delta (set_named ''content'' (js_or content (JStr []))) data)),
               reasoningStarted))
      else (None, reasoningStarted))"

text \<open>
  Lines 103 to 106, the start of the callback of \<^verbatim>\<open>lines.forEach\<close>: \<open>None\<close>
  where the callback returns at line 104, else \<^verbatim>\<open>jsonStr\<close>.
\<close>

definition data_payload :: "string \<Rightarrow> string option" where
  "data_payload line =
     (let trimmed = trim line in
      if trimmed = [] \<or> \<not> starts_with ''data: '' trimmed then None
      else Some (trim (replace_first ''data: '' [] trimmed)))"

text \<open>
  Lines 102 to 150, the whole callback: what it writes to the client with
  \<^verbatim>\<open>res.write\<close>, in order, and the new \<^verbatim>\<open>reasoningStarted\<close>. Whatever the
  \<^verbatim>\<open>try\<close> block throws is caught and dropped at line 147.
\<close>

definition handle_line :: "runtime \<Rightarrow> bool \<Rightarrow> bool \<Rightarrow> string \<Rightarrow> string list \<times> bool" where
  "handle_line rt show_reasoning reasoningStarted line =
     (case data_payload line of
        None \<Rightarrow> ([], reasoningStarted)
      | Some jsonStr \<Rightarrow>
          if jsonStr = ''[DONE]'' then ([''data: [DONE]\<newline>\<newline>''], reasoningStarted)
          else
            (case JSON_parse rt jsonStr of
               None \<Rightarrow> ([], reasoningStarted)
             | Some data \<Rightarrow>
                 (case handle_data rt show_reasoning reasoningStarted data of
                    (None, started) \<Rightarrow> ([], started)
                  | (Some event, started) \<Rightarrow>
                      ([''data: '' @ JSON_stringify rt event @ ''\<newline>\<newline>''], started))))"

text \<open>\<^verbatim>\<open>lines.forEach(...)\<close>\<close>

fun process_lines :: "runtime \<Rightarrow> bool \<Rightarrow> bool \<Rightarrow> string list \<Rightarrow> string list \<times> bool" where
  "process_lines rt show_reasoning reasoningStarted [] = ([], reasoningStarted)"
| "process_lines rt show_reasoning reasoningStarted (line # lines) =
     (let (written, started) = handle_line rt show_reasoning reasoningStarted line;
          (more, started') = process_lines rt show_reasoning started lines
      in (written @ more, started'))"

text \<open>The two variables of the closure, lines 94 and 95.\<close>

record stream_state =
  buffer :: string
  reasoningStarted :: bool

definition initial_state :: stream_state where
  "initial_state = \<lparr>buffer = [], reasoningStarted = False\<rparr>"

text \<open>Lines 97 to 151, the handler of a \<^verbatim>\<open>'data'\<close> event.\<close>

definition on_data :: "runtime \<Rightarrow> bool \<Rightarrow> stream_state \<Rightarrow> string \<Rightarrow> string list \<times> stream_state" where
  "on_data rt show_reasoning st chunk =
     (let (lines, buffer') = reassemble (buffer st) chunk;
          (written, started) = process_lines rt show_reasoning (reasoningStarted st) lines
      in (written, \<lparr>buffer = buffer', reasoningStarted = started\<rparr>))"


text \<open>A stream: the chunks in order, then the end.\<close>

fun on_chunks :: "runtime \<Rightarrow> bool \<Rightarrow> stream_state \<Rightarrow> string list \<Rightarrow> string list \<times> stream_state" where
  "on_chunks rt show_reasoning st [] = ([], st)"
| "on_chunks rt show_reasoning st (chunk # chunks) =
     (let (written, st') = on_data rt show_reasoning st chunk;
          (more, st'') = on_chunks rt show_reasoning st' chunks
      in (written @ more, st''))"


section \<open>The request handler\<close>

text \<open>Lines 24 to 32.\<close>

definition MODEL_MAPPING :: "(string \<times> string) list" where
  "MODEL_MAPPING =
     [(''gpt-3.5-turbo'', ''nvidia/llama-3.1-nemotron-ultra-253b-v1''),
      (''gpt-4'', ''qwen/qwen3-coder-480b-a35b-instruct''),
      (''gpt-4-turbo'', ''moonshotai/kimi-k2-instruct-0905''),
      (''gpt-4o'', ''deepseek-ai/deepseek-v3.1''),
      (''claude-3-opus'', ''openai/gpt-oss-120b''),
      (''claude-3-sonnet'', ''openai/gpt-oss-20b''),
      (''gemini-pro'', ''qwen/qwen3-next-80b-a3b-thinking'')]"

text \<open>
  \<^verbatim>\<open>MODEL_MAPPING\<close> is an object literal, so a read that finds no own property
  goes on to \<^verbatim>\<open>Object.prototype\<close>, whose members are these. Each is a function,
  and \<^verbatim>\<open>__proto__\<close> is the prototype object itself: all of them are truthy.
\<close>

definition Object_prototype :: "string list" where
  "Object_prototype =
     [''constructor'', ''__defineGetter__'', ''__defineSetter__'', ''hasOwnProperty'',
      ''__lookupGetter__'', ''__lookupSetter__'', ''isPrototypeOf'',
      ''propertyIsEnumerable'', ''toString'', ''valueOf'', ''__proto__'',
      ''toLocaleString'']"

text \<open>
  What the variable \<^verbatim>\<open>nimModel\<close> can hold: a string, or the member of
  \<^verbatim>\<open>Object.prototype\<close> of the given name.
\<close>

datatype nim_model = ModelName string | PrototypeMember string

fun nim_truthy :: "nim_model \<Rightarrow> bool" where
  "nim_truthy (ModelName s) = (s \<noteq> [])"
| "nim_truthy (PrototypeMember k) = True"

text \<open>\<^verbatim>\<open>MODEL_MAPPING[key]\<close>, \<open>None\<close> for \<^verbatim>\<open>undefined\<close>.\<close>

definition MODEL_MAPPING_get :: "string \<Rightarrow> nim_model option" where
  "MODEL_MAPPING_get key =
     (case map_of MODEL_MAPPING key of
        Some v \<Rightarrow> Some (ModelName v)
      | None \<Rightarrow> if key \<in> set Object_prototype then Some (PrototypeMember key) else None)"

text \<open>
  Lines 66 to 72. \<^verbatim>\<open>model.toLowerCase()\<close> throws a TypeError on anything that
  is not a string.
\<close>

definition fallback_model :: "jsval \<Rightarrow> js_error + nim_model" where
  "fallback_model model =
     (case model of
        JStr s \<Rightarrow>
          (let modelLower = toLowerCase s
           in if includes_str ''gpt-4'' modelLower \<or> includes_str ''405b'' modelLower
              then Inr (ModelName ''meta/llama-3.1-405b-instruct'')
              else Inr (ModelName ''meta/llama-3.1-8b-instruct''))
      | _ \<Rightarrow> Inl TypeError)"

text \<open>Lines 64 to 73.\<close>

definition resolve_model :: "runtime \<Rightarrow> jsval \<Rightarrow> js_error + nim_model" where
  "resolve_model rt model =
     (case to_property_key rt model of
        None \<Rightarrow> Inl TypeError
      | Some key \<Rightarrow>
          (case MODEL_MAPPING_get key of
             Some nimModel \<Rightarrow> if nim_truthy nimModel then Inr nimModel else fallback_model model
           | None \<Rightarrow> fallback_model model))"

definition ENABLE_THINKING_MODE :: bool where
  "ENABLE_THINKING_MODE = False"

text \<open>Lines 75 to 82.\<close>

record nimRequest =
  model :: nim_model
  messages :: jsval
  temperature :: jsval
  max_tokens :: jsval
  extra_body :: jsval
  stream :: jsval

text \<open>
  How far the handler of \<^verbatim>\<open>POST /v1/chat/completions\<close> gets before the backend
  answers: it calls \<^verbatim>\<open>axios.post\<close> with the request, or an error thrown before
  that reaches the \<^verbatim>\<open>catch\<close> at line 160, which answers
  \<^verbatim>\<open>res.status(500).json({ error: { message: error.message } })\<close>.
\<close>

record response =
  status :: nat
  payload :: jsval

datatype outcome = Respond response | Post nimRequest

definition error_500 :: "runtime \<Rightarrow> js_error \<Rightarrow> response" where
  "error_500 rt e =
     \<lparr>status = 500,
      payload = JObj [(''error'', JObj [(''message'', JStr (error_message rt e))])]\<rparr>"

text \<open>
  Lines 61 to 84. Destructuring \<^verbatim>\<open>req.body\<close> throws a TypeError when the body is
  \<^verbatim>\<open>undefined\<close> or \<^verbatim>\<open>null\<close>.
\<close>

definition chat_completions :: "runtime \<Rightarrow> jsval \<Rightarrow> outcome" where
  "chat_completions rt body =
     (if body = JUndefined \<or> body = JNull then Respond (error_500 rt TypeError)
      else
        (case resolve_model rt (get_named ''model'' body) of
           Inl e \<Rightarrow> Respond (error_500 rt e)
         | Inr nimModel \<Rightarrow>
             Post \<lparr>model = nimModel,
                   messages = get_named ''messages'' body,
                   temperature = js_or (get_named ''temperature'' body) (JNum (6 / 10)),
                   max_tokens = js_or (get_named ''max_tokens'' body) (JNum 9024),
                   extra_body =
                     (if ENABLE_THINKING_MODE
                      then JObj [(''chat_template_kwargs'', JObj [(''thinking'', JBool True)])]
                      else JUndefined),
                   stream = js_or (get_named ''stream'' body) (JBool True)\<rparr>))"

section \<open>Vocabulary of the properties\<close>

text \<open>
  The two channels of a delta carry text: a field holds a string, or a falsy value
  (absent, \<^verbatim>\<open>null\<close>, \<^verbatim>\<open>false\<close>, 0), which the handler treats like the empty
  string. A text is present when it is not empty.
\<close>

definition text_of :: "jsval \<Rightarrow> string" where
  "text_of v = (case v of JStr s \<Rightarrow> s | _ \<Rightarrow> [])"

definition is_text :: "jsval \<Rightarrow> bool" where
  "is_text v = (case v of JStr s \<Rightarrow> True | _ \<Rightarrow> \<not> truthy v)"

text \<open>
  The transition function as the specification words it, section 4.3, on the two
  states of \<^verbatim>\<open>reasoningBlockOpen\<close>: first the reasoning transition, then the answer
  transition from the state that the first one reached, the outputs concatenated.
  The markers are the two literals of lines 123 and 130.
\<close>

datatype block_state = Closed | Open

definition state_of :: "bool \<Rightarrow> block_state" where
  "state_of started = (if started then Open else Closed)"

definition open_marker :: string where
  "open_marker = ''<think>\<newline>''"

definition close_marker :: string where
  "close_marker = ''</think>\<newline>\<newline>''"

definition spec_reasoning :: "string \<Rightarrow> block_state \<Rightarrow> string \<times> block_state" where
  "spec_reasoning reasoning st =
     (if reasoning \<noteq> [] \<and> st = Closed then (open_marker @ reasoning, Open)
      else if reasoning \<noteq> [] \<and> st = Open then (reasoning, Open)
      else ([], st))"

definition spec_answer :: "string \<Rightarrow> block_state \<Rightarrow> string \<times> block_state" where
  "spec_answer answer st =
     (if answer \<noteq> [] \<and> st = Open then (close_marker @ answer, Closed)
      else if answer \<noteq> [] \<and> st = Closed then (answer, Closed)
      else ([], st))"

definition spec_transition :: "string \<Rightarrow> string \<Rightarrow> block_state \<Rightarrow> string \<times> block_state" where
  "spec_transition reasoning answer st =
     (let (out1, st1) = spec_reasoning reasoning st;
          (out2, st2) = spec_answer answer st1
      in (out1 @ out2, st2))"

text \<open>
  The merge over the deltas of a stream, each given by its \<^verbatim>\<open>reasoning_content\<close>
  and its \<^verbatim>\<open>content\<close>: \<^verbatim>\<open>reasoningStarted\<close> lives in the closure, so each delta
  starts from the flag that the one before left. The result lists
  \<^verbatim>\<open>combinedContent\<close> delta by delta (\<open>None\<close> where the merge threw).
\<close>

type_synonym delta = "jsval \<times> jsval"










text \<open>
  The delta of the event is an object whose \<^verbatim>\<open>content\<close> is \<open>x\<close> and which has no
  \<^verbatim>\<open>reasoning_content\<close> property.
\<close>

definition content_rewritten :: "jsval \<Rightarrow> jsval \<Rightarrow> bool" where
  "content_rewritten event x \<longleftrightarrow>
     (case delta_of event of
        JObj kvs \<Rightarrow> map_of kvs ''content'' = Some x \<and> ''reasoning_content'' \<notin> fst ` set kvs
      | _ \<Rightarrow> False)"

section \<open>A runtime for the examples\<close>

text \<open>
  The theorems hold for every runtime. The examples need one: this one parses and
  prints the two events they use, as \<^verbatim>\<open>JSON.parse\<close> and \<^verbatim>\<open>JSON.stringify\<close> do,
  and rejects every other text; the examples coerce nothing, and every coercion of
  this runtime throws. \<open>delta_event kvs\<close> is the event whose only choice has the
  delta object of properties \<open>kvs\<close>.
\<close>

definition delta_event :: "(string \<times> jsval) list \<Rightarrow> jsval" where
  "delta_event kvs = JObj [(''choices'', JArr [JObj [(''delta'', JObj kvs)]])]"

definition example_event :: jsval where
  "example_event = delta_event [(''content'', JStr ''hi'')]"

definition example_text :: string where
  \<open>example_text = ''{"choices":[{"delta":{"content":"hi"}}]}''\<close>

definition blank_event :: jsval where
  "blank_event = delta_event [(''content'', JNull), (''reasoning_content'', JNull)]"

definition blank_text :: string where
  \<open>blank_text = ''{"choices":[{"delta":{"content":null,"reasoning_content":null}}]}''\<close>

definition example_runtime :: runtime where
  "example_runtime =
     \<lparr>JSON_parse =
        (\<lambda>s. if s = example_text then Some example_event
             else if s = blank_text then Some blank_event else None),
      JSON_stringify =
        (\<lambda>v. if v = example_event then example_text
             else if v = blank_event then blank_text else []),
      plus_coerced = (\<lambda>a b. None),
      key_coerced = (\<lambda>v. None),
      error_message = (\<lambda>e. ''error'')\<rparr>"

section \<open>Frame reassembly\<close>








lemma process_lines_append:
  "process_lines rt sh s (xs @ ys) =
     (let (w1, s1) = process_lines rt sh s xs;
          (w2, s2) = process_lines rt sh s1 ys
      in (w1 @ w2, s2))"
  by (induction xs arbitrary: s) (auto simp: Let_def split: prod.splits)

lemma on_chunks_reassemble_all:
  "on_chunks rt sh st chunks =
     (let (lines, b) = reassemble_all (buffer st) chunks;
          (written, started) = process_lines rt sh (reasoningStarted st) lines
      in (written, \<lparr>buffer = b, reasoningStarted = started\<rparr>))"
proof (induction chunks arbitrary: st)
  case Nil
  show ?case by simp
next
  case (Cons c cs)
  show ?case
    by (simp add: Cons.IH on_data_def process_lines_append Let_def split: prod.splits)
qed



section \<open>Model resolution and request defaults\<close>

lemma MODEL_MAPPING_truthy: "map_of MODEL_MAPPING key = Some v \<Longrightarrow> v \<noteq> []"
  by (auto simp: MODEL_MAPPING_def split: if_splits)

text \<open>An identifier of the table resolves to its entry.\<close>

lemma resolve_model_mapped:
  "map_of MODEL_MAPPING s = Some v \<Longrightarrow> resolve_model rt (JStr s) = Inr (ModelName v)"
  using MODEL_MAPPING_truthy [of s v]
  by (simp add: resolve_model_def to_property_key_def MODEL_MAPPING_get_def)

text \<open>
  An identifier that is neither in the table nor the name of a member of
  \<^verbatim>\<open>Object.prototype\<close> resolves to one of the two fallback models.
\<close>

lemma resolve_model_fallback:
  "map_of MODEL_MAPPING s = None \<Longrightarrow> s \<notin> set Object_prototype \<Longrightarrow>
   resolve_model rt (JStr s) =
     Inr (ModelName
       (if includes_str ''gpt-4'' (toLowerCase s) \<or> includes_str ''405b'' (toLowerCase s)
        then ''meta/llama-3.1-405b-instruct'' else ''meta/llama-3.1-8b-instruct''))"
  by (simp add: resolve_model_def to_property_key_def MODEL_MAPPING_get_def fallback_model_def
      Let_def)

text \<open>
  Claim C8. The identifier \<^verbatim>\<open>constructor\<close> is not in the table and its lower case
  contains neither \<^verbatim>\<open>gpt-4\<close> nor \<^verbatim>\<open>405b\<close>, so the claim gives it the small
  fallback model. The read \<^verbatim>\<open>MODEL_MAPPING[model]\<close> finds the inherited member of
  \<^verbatim>\<open>Object.prototype\<close>, which is truthy: the fallback is skipped and the request
  is posted with that function as its model.
\<close>

theorem resolve_model_constructor:
  "map_of MODEL_MAPPING ''constructor'' = None \<and>
   \<not> includes_str ''gpt-4'' (toLowerCase ''constructor'') \<and>
   \<not> includes_str ''405b'' (toLowerCase ''constructor'') \<and>
   resolve_model rt (JStr ''constructor'') = Inr (PrototypeMember ''constructor'') \<and>
   resolve_model rt (JStr ''constructor'') \<noteq> Inr (ModelName ''meta/llama-3.1-8b-instruct'')"
  by (simp add: resolve_model_def to_property_key_def MODEL_MAPPING_get_def MODEL_MAPPING_def
      Object_prototype_def toLowerCase_def lower_char_def starts_with_def)

text \<open>
  Claim C9. Whenever a request is posted to the backend: a client temperature that
  is absent, \<^verbatim>\<open>null\<close> or 0 is replaced by 0.6, so a temperature of 0 is not kept;
  a client \<^verbatim>\<open>max_tokens\<close> that is absent, \<^verbatim>\<open>null\<close> or 0 is replaced by 9024.
\<close>

theorem nimRequest_defaults:
  assumes "chat_completions rt body = Post req"
  shows "(get_named ''temperature'' body \<in> {JUndefined, JNull, JNum 0} \<longrightarrow>
            temperature req = JNum (6 / 10) \<and> temperature req \<noteq> JNum 0) \<and>
         (get_named ''max_tokens'' body \<in> {JUndefined, JNull, JNum 0} \<longrightarrow>
            max_tokens req = JNum 9024)"
  using assms
  by (auto simp: chat_completions_def js_or_def split: if_splits sum.splits)

theorem nimRequest_defaults_witness:
  "chat_completions example_runtime
     (JObj [(''model'', JStr ''gpt-4''), (''temperature'', JNum 0), (''max_tokens'', JNull)])
   = Post \<lparr>model = ModelName ''qwen/qwen3-coder-480b-a35b-instruct'', messages = JUndefined,
            temperature = JNum (6 / 10), max_tokens = JNum 9024, extra_body = JUndefined,
            stream = JBool True\<rparr> \<and>
   temperature \<lparr>model = ModelName ''qwen/qwen3-coder-480b-a35b-instruct'', messages = JUndefined,
            temperature = JNum (6 / 10), max_tokens = JNum 9024, extra_body = JUndefined,
            stream = JBool True\<rparr> \<noteq> JNum 0"
proof -
  let ?body = "JObj [(''model'', JStr ''gpt-4''), (''temperature'', JNum 0), (''max_tokens'', JNull)]"
  let ?req = "\<lparr>model = ModelName ''qwen/qwen3-coder-480b-a35b-instruct'', messages = JUndefined,
            temperature = JNum (6 / 10), max_tokens = JNum 9024, extra_body = JUndefined,
            stream = JBool True\<rparr>"
  have posted: "chat_completions example_runtime ?body = Post ?req"
    by (simp add: chat_completions_def resolve_model_def to_property_key_def
        MODEL_MAPPING_get_def MODEL_MAPPING_def js_or_def ENABLE_THINKING_MODE_def)
  from nimRequest_defaults [OF posted] posted show ?thesis by simp
qed

text \<open>
  Claim C10. When the body is an object without a \<^verbatim>\<open>model\<close> property, the table
  read gives \<^verbatim>\<open>undefined\<close>, \<^verbatim>\<open>model.toLowerCase()\<close> throws a TypeError, no
  request is posted, and the handler answers with status 500 and the error
  message as payload.
\<close>

theorem missing_model_500:
  assumes "map_of kvs ''model'' = None"
  shows "MODEL_MAPPING_get ''undefined'' = None \<and>
         fallback_model (get_named ''model'' (JObj kvs)) = Inl TypeError \<and>
         resolve_model rt (get_named ''model'' (JObj kvs)) = Inl TypeError \<and>
         chat_completions rt (JObj kvs) = Respond (error_500 rt TypeError) \<and>
         status (error_500 rt TypeError) = 500 \<and>
         payload (error_500 rt TypeError) =
           JObj [(''error'', JObj [(''message'', JStr (error_message rt TypeError))])]"
  using assms
  by (simp add: chat_completions_def resolve_model_def to_property_key_def MODEL_MAPPING_get_def
      MODEL_MAPPING_def Object_prototype_def fallback_model_def error_500_def)

theorem missing_model_500_witness:
  "chat_completions example_runtime (JObj [(''messages'', JArr []), (''stream'', JBool True)])
   = Respond \<lparr>status = 500,
       payload = JObj [(''error'', JObj [(''message'', JStr ''error'')])]\<rparr>"
  using missing_model_500 [of "[(''messages'', JArr []), (''stream'', JBool True)]" example_runtime]
  by (simp add: error_500_def example_runtime_def)

section \<open>The channel merger under the show policy\<close>

lemma is_text_cases: "is_text v \<Longrightarrow> (\<exists>s. v = JStr s) \<or> (\<not> truthy v \<and> text_of v = [])"
  by (cases v) (auto simp: is_text_def text_of_def)

lemma js_plus_strings [simp]: "js_plus rt (JStr x) (JStr y) = Some (JStr (x @ y))"
  by (simp add: js_plus_def)

lemma merge_reasoning_text:
  assumes "is_text reasoning"
  shows "merge_reasoning rt reasoning started =
     (Some (JStr (fst (spec_reasoning (text_of reasoning) (state_of started)))),
      snd (spec_reasoning (text_of reasoning) (state_of started)) = Open)"
  using is_text_cases [OF assms]
  by (auto simp: merge_reasoning_def spec_reasoning_def state_of_def text_of_def open_marker_def)

lemma merge_content_text:
  assumes "is_text content"
  shows "merge_content rt (JStr combined) content started =
     (Some (JStr (combined @ fst (spec_answer (text_of content) (state_of started)))),
      snd (spec_answer (text_of content) (state_of started)) = Open)"
  using is_text_cases [OF assms]
  by (auto simp: merge_content_def spec_answer_def state_of_def text_of_def close_marker_def)

lemma state_of_eq: "state_of (st = Open) = st"
  by (cases st) (simp_all add: state_of_def)

lemma merge_show_spec:
  assumes "is_text reasoning" and "is_text content"
  shows "merge_show rt reasoning content started =
           (Some (JStr (fst (spec_transition (text_of reasoning) (text_of content) (state_of started)))),
            snd (spec_transition (text_of reasoning) (text_of content) (state_of started)) = Open)"
  by (simp add: merge_show_def merge_reasoning_text [OF assms(1)] merge_content_text [OF assms(2)]
      spec_transition_def state_of_eq split: prod.splits)

lemma spec_transition_closed_form:
  "spec_transition r a st =
     ((if r \<noteq> [] \<and> st = Closed then open_marker else []) @ r @
      (if a \<noteq> [] \<and> (r \<noteq> [] \<or> st = Open) then close_marker else []) @ a,
      if a \<noteq> [] then Closed else if r \<noteq> [] then Open else st)"
  by (cases st) (auto simp: spec_transition_def spec_reasoning_def spec_answer_def)











text \<open>
  Claim C2. With \<^verbatim>\<open>SHOW_REASONING\<close> on and both fields texts, the merge is the
  transition function of the specification: the emitted text and the next state
  are those of the reasoning transition followed by the answer transition. The
  text is the reasoning, after the open marker when reasoning is present and the
  block was closed, then the answer, after the close marker when an answer is
  present and the block is open by then: one marker of each kind at most, and
  nothing at all when neither text is present.
\<close>

theorem merge_show_transition:
  assumes "is_text reasoning" and "is_text content"
  shows "merge_show rt reasoning content started =
           (Some (JStr (fst (spec_transition (text_of reasoning) (text_of content) (state_of started)))),
            snd (spec_transition (text_of reasoning) (text_of content) (state_of started)) = Open) \<and>
         spec_transition (text_of reasoning) (text_of content) (state_of started) =
           ((if text_of reasoning \<noteq> [] \<and> \<not> started then open_marker else []) @
              text_of reasoning @
            (if text_of content \<noteq> [] \<and> (text_of reasoning \<noteq> [] \<or> started)
             then close_marker else []) @
              text_of content,
            if text_of content \<noteq> [] then Closed
            else if text_of reasoning \<noteq> [] then Open else state_of started)"
  using merge_show_spec [OF assms, of rt started]
  by (simp add: spec_transition_closed_form state_of_def)

theorem merge_show_transition_witness:
  "is_text (JStr ''a'') \<and> is_text (JStr ''c'') \<and>
   merge_show example_runtime (JStr ''a'') (JStr ''c'') False =
     (Some (JStr ''<think>\<newline>a</think>\<newline>\<newline>c''), False)"
  using merge_show_transition [of "JStr ''a''" "JStr ''c''" example_runtime False]
  by (simp add: is_text_def text_of_def state_of_def open_marker_def close_marker_def)



section \<open>Writes through the delta\<close>

lemma get_at_named:
  "get_named k v = x \<Longrightarrow> x \<noteq> JUndefined \<Longrightarrow>
   get_named k (at_named k f v) = f x \<and> (\<exists>kvs. at_named k f v = JObj kvs)"
  by (cases v) (auto simp: update_conv' split: option.splits)

lemma get_at_index0:
  "get_index0 v = x \<Longrightarrow> get_named k x \<noteq> JUndefined \<Longrightarrow>
   get_index0 (at_index0 f v) = f x \<and> at_index0 f v \<noteq> JUndefined \<and> at_index0 f v \<noteq> JNull"
proof (cases v)
  case (JArr xs)
  assume "get_index0 v = x" "get_named k x \<noteq> JUndefined"
  with JArr show ?thesis by (cases xs) auto
next
  case (JObj kvs)
  assume a: "get_index0 v = x" "get_named k x \<noteq> JUndefined"
  then have "x \<noteq> JUndefined" by auto
  with a JObj get_at_named [of "''0''" v x f] show ?thesis by auto
next
  case (JStr cs)
  assume "get_index0 v = x" "get_named k x \<noteq> JUndefined"
  with JStr show ?thesis by (cases cs) auto
qed auto

lemma delta_of_at_delta:
  assumes "truthy (delta_of data)"
  shows "delta_of (at_delta f data) = f (delta_of data)"
proof -
  let ?c = "get_named ''choices'' data"
  let ?x = "get_index0 ?c"
  let ?d = "get_named ''delta'' ?x"
  from assms have d: "delta_of data = ?d" and c: "?c \<noteq> JUndefined" and dd: "?d \<noteq> JUndefined"
    by (auto simp: delta_of_def optional_chain_def split: if_splits)
  let ?g = "at_index0 (at_named ''delta'' f)"
  from get_at_named [OF refl c, of ?g]
  have 1: "get_named ''choices'' (at_delta f data) = ?g ?c"
    and 0: "at_delta f data \<noteq> JUndefined" "at_delta f data \<noteq> JNull"
    by (auto simp: at_delta_def)
  from get_at_index0 [OF refl dd, of "at_named ''delta'' f"]
  have 2: "get_index0 (?g ?c) = at_named ''delta'' f ?x" "?g ?c \<noteq> JUndefined" "?g ?c \<noteq> JNull"
    by simp_all
  from get_at_named [OF refl dd, of f]
  have 3: "get_named ''delta'' (at_named ''delta'' f ?x) = f ?d"
    "at_named ''delta'' f ?x \<noteq> JUndefined" "at_named ''delta'' f ?x \<noteq> JNull"
    by auto
  show ?thesis
    using 0 1 2 3 by (simp add: delta_of_def [of "at_delta f data"] optional_chain_def d)
qed

lemma delta_rewritten:
  assumes "delta_of data = JObj kvs"
  shows "delta_of (at_delta (delete_named ''reasoning_content'')
                     (at_delta (set_named ''content'' x) data)) =
         JObj (AList.delete ''reasoning_content'' (AList.update ''content'' x kvs))"
proof -
  have 1: "delta_of (at_delta (set_named ''content'' x) data) = JObj (AList.update ''content'' x kvs)"
    using assms delta_of_at_delta [of data "set_named ''content'' x"] by simp
  show ?thesis
    using delta_of_at_delta [of "at_delta (set_named ''content'' x) data" "delete_named ''reasoning_content''"]
    by (simp add: 1)
qed

lemma rewritten_fields:
  "map_of (AList.delete ''reasoning_content'' (AList.update ''content'' x kvs)) ''content'' = Some x \<and>
   ''reasoning_content'' \<notin> fst ` set (AList.delete ''reasoning_content'' (AList.update ''content'' x kvs))"
  by (simp add: delete_conv' update_conv' delete_notin_dom)

lemma content_rewritten_at_delta:
  assumes "delta_of data = JObj kvs"
  shows "content_rewritten (at_delta (delete_named ''reasoning_content'')
                     (at_delta (set_named ''content'' x) data)) x"
  by (simp add: content_rewritten_def delta_rewritten [OF assms] rewritten_fields)

lemma handle_data_hide:
  assumes "delta_of data = JObj kvs"
  shows "handle_data rt False s data =
     (Some (at_delta (delete_named ''reasoning_content'')
              (at_delta (set_named ''content'' (js_or (get_named ''content'' (JObj kvs)) (JStr []))) data)), s)"
  using assms by (simp add: handle_data_def Let_def)

lemma handle_data_hide_state: "handle_data rt False s data = (out, s') \<Longrightarrow> s' = s"
  by (auto simp: handle_data_def Let_def split: if_splits)

lemma handle_line_hide_state: "handle_line rt False s line = (written, s') \<Longrightarrow> s' = s"
  by (auto simp: handle_line_def split: option.splits prod.splits if_splits
      dest: handle_data_hide_state)

lemma process_lines_hide_state: "process_lines rt False s ls = (written, s') \<Longrightarrow> s' = s"
proof (induction ls arbitrary: s written)
  case Nil
  then show ?case by simp
next
  case (Cons l ls)
  then show ?case
    by (auto simp: Let_def split: prod.splits dest: handle_line_hide_state)
qed

lemma on_chunks_hide_state:
  "reasoningStarted (snd (on_chunks rt False st chunks)) = reasoningStarted st"
  by (auto simp: on_chunks_reassemble_all Let_def split: prod.splits
      dest: process_lines_hide_state)

lemma handle_line_done:
  assumes "data_payload line = Some ''[DONE]''"
  shows "handle_line rt sh started line = ([''data: [DONE]\<newline>\<newline>''], started)"
  using assms by (simp add: handle_line_def)



section \<open>The hide policy\<close>

text \<open>
  Claim C3. With \<^verbatim>\<open>SHOW_REASONING\<close> off, an event whose first choice has a delta
  object is written with the delta's \<^verbatim>\<open>content\<close> set to the answer when it is
  present and to the empty string otherwise, and without \<^verbatim>\<open>reasoning_content\<close>;
  the flag is not touched. Over a whole stream, cut into chunks in any way,
  \<^verbatim>\<open>reasoningStarted\<close> is false after every chunk.
\<close>

theorem hide_policy:
  assumes "delta_of data = JObj kvs"
  shows "(\<exists>event. handle_data rt False started data = (Some event, started) \<and>
           content_rewritten event
             (if truthy (get_named ''content'' (JObj kvs)) then get_named ''content'' (JObj kvs)
              else JStr [])) \<and>
         reasoningStarted (snd (on_chunks rt False initial_state chunks)) = False"
  using content_rewritten_at_delta [OF assms]
  by (simp add: handle_data_hide [OF assms] on_chunks_hide_state js_or_def initial_state_def)

theorem hide_policy_witness:
  "delta_of (delta_event [(''reasoning_content'', JStr ''r''), (''content'', JStr ''hi'')])
     = JObj [(''reasoning_content'', JStr ''r''), (''content'', JStr ''hi'')] \<and>
   handle_data example_runtime False False
     (delta_event [(''reasoning_content'', JStr ''r''), (''content'', JStr ''hi'')])
     = (Some (delta_event [(''content'', JStr ''hi'')]), False) \<and>
   content_rewritten (delta_event [(''content'', JStr ''hi'')]) (JStr ''hi'')"
proof -
  let ?kvs = "[(''reasoning_content'', JStr ''r''), (''content'', JStr ''hi'')]"
  have d: "delta_of (delta_event ?kvs) = JObj ?kvs"
    by (simp add: delta_of_def optional_chain_def delta_event_def)
  have run: "handle_data example_runtime False False (delta_event ?kvs)
      = (Some (delta_event [(''content'', JStr ''hi'')]), False)"
    by (simp add: handle_data_def d js_or_def) (simp add: at_delta_def delta_event_def)
  from hide_policy [OF d, of example_runtime False "[]"] run d show ?thesis
    by simp
qed

section \<open>Lines\<close>

text \<open>
  Claim C4, as the code has it. A line whose payload is \<^verbatim>\<open>[DONE]\<close> writes the one
  frame \<^verbatim>\<open>data: [DONE]\<close> with two line feeds and leaves the flag as it was. The
  handler keeps no record of it: the lines after it are processed like any others,
  from the state that the lines before it left.
\<close>

theorem done_frame:
  assumes "data_payload line = Some ''[DONE]''"
  shows "handle_line rt sh started line = ([''data: [DONE]\<newline>\<newline>''], started) \<and>
         process_lines rt sh started (before @ line # after) =
           (fst (process_lines rt sh started before) @ [''data: [DONE]\<newline>\<newline>''] @
              fst (process_lines rt sh (snd (process_lines rt sh started before)) after),
            snd (process_lines rt sh (snd (process_lines rt sh started before)) after))"
  using handle_line_done [OF assms]
  by (simp add: process_lines_append Let_def split: prod.splits)

theorem done_frame_witness:
  "data_payload '' data:  [DONE] '' = Some ''[DONE]'' \<and>
   handle_line example_runtime False False '' data:  [DONE] '' =
     ([''data: [DONE]\<newline>\<newline>''], False)"
proof -
  have p: "data_payload '' data:  [DONE] '' = Some ''[DONE]''"
    by (simp add: data_payload_def trim_def is_space_def starts_with_def)
  from done_frame [OF p, of example_runtime False False "[]" "[]"] p show ?thesis
    by simp
qed

text \<open>
  Claim C4 as stated fails: a data line that follows the \<^verbatim>\<open>[DONE]\<close> line in the
  same chunk is parsed and written after the terminal frame.
\<close>

theorem done_not_final:
  \<open>process_lines example_runtime False False
     [''data: [DONE]'', ''data: {"choices":[{"delta":{"content":"hi"}}]}'']
   = ([''data: [DONE]\<newline>\<newline>'',
       ''data: {"choices":[{"delta":{"content":"hi"}}]}\<newline>\<newline>''], False) \<and>
   fst (process_lines example_runtime False False
     [''data: [DONE]'', ''data: {"choices":[{"delta":{"content":"hi"}}]}''])
   \<noteq> [''data: [DONE]\<newline>\<newline>'']\<close>
proof -
  have 1: "data_payload ''data: [DONE]'' = Some ''[DONE]''"
    by (simp add: data_payload_def trim_def is_space_def starts_with_def)
  have 2: \<open>data_payload ''data: {"choices":[{"delta":{"content":"hi"}}]}'' = Some example_text\<close>
    by (simp add: data_payload_def trim_def is_space_def starts_with_def example_text_def)
  have 3: "delta_of example_event = JObj [(''content'', JStr ''hi'')]"
    by (simp add: delta_of_def optional_chain_def example_event_def delta_event_def)
  have 4: "handle_data example_runtime False False example_event = (Some example_event, False)"
    by (simp add: handle_data_def 3 js_or_def)
      (simp add: at_delta_def example_event_def delta_event_def)
  have 5: "example_text \<noteq> ''[DONE]''"
    by (simp add: example_text_def)
  have 6: "JSON_parse example_runtime example_text = Some example_event"
    "JSON_stringify example_runtime example_event = example_text"
    by (simp_all add: example_runtime_def)
  have \<open>process_lines example_runtime False False
       [''data: [DONE]'', ''data: {"choices":[{"delta":{"content":"hi"}}]}'']
      = ([''data: [DONE]\<newline>\<newline>'', ''data: '' @ example_text @ ''\<newline>\<newline>''], False)\<close>
    by (simp add: handle_line_def 1 2 4 5 6)
  then show ?thesis
    by (simp add: example_text_def)
qed









end
